theory Spec2Isabelle
  imports Main
begin

section \<open>JavaScript values and objects\<close>

text \<open>
  The fields of a \<open>Page\<close> are untyped JavaScript properties: whatever the storage
  returned is assigned to them. The values that can stand there are modelled by
  \<open>jsval\<close>; \<open>JError\<close> is an \<open>Error\<close> object with its message (the reason of a
  rejected \<open>fetch\<close>). An object literal is an association list of its properties,
  each name once; reading a property that is not there gives \<open>undefined\<close>.
\<close>

datatype jsval = JUndefined | JNull | JBool bool | JNum int | JStr string | JError string

type_synonym jsobject = "(string \<times> jsval) list"

definition getProp :: "jsobject \<Rightarrow> string \<Rightarrow> jsval" where
  "getProp data k = (case map_of data k of None \<Rightarrow> JUndefined | Some v \<Rightarrow> v)"

text \<open>
  A default of a destructuring pattern (\<open>{title = Page.DEFAULTS.title, ...}\<close>) is taken
  exactly when the property is \<open>undefined\<close>; \<open>null\<close> is kept.
\<close>

definition orDefault :: "jsval \<Rightarrow> jsval \<Rightarrow> jsval" where
  "orDefault v d = (if v = JUndefined then d else v)"

section \<open>The Page class (src/lib/page/page.js)\<close>

record Page =
  id' :: string
  title :: jsval
  url :: jsval
  scanRateMinutes :: jsval
  changeThreshold :: jsval
  ignoreNumbers :: jsval
  encoding :: jsval
  highlightChanges :: jsval
  highlightColour :: jsval
  markChanges :: jsval
  doPost :: jsval
  postParams :: jsval
  state :: jsval
  error :: jsval
  errorMessage :: jsval
  lastAutoscanTime :: jsval
  oldScanTime :: jsval
  newScanTime :: jsval

text \<open>\<open>Page.stateEnum\<close>: the states are strings.\<close>

definition Page_NO_CHANGE :: jsval where "Page_NO_CHANGE = JStr ''no_change''"
definition Page_CHANGED :: jsval where "Page_CHANGED = JStr ''changed''"
definition Page_ERROR :: jsval where "Page_ERROR = JStr ''error''"

text \<open>\<open>Page.DEFAULTS\<close>.\<close>

definition DEFAULTS :: jsobject where
  "DEFAULTS =
    [(''title'', JStr ''New Page''),
     (''url'', JNull),
     (''scanRateMinutes'', JNum (24 * 60)),
     (''changeThreshold'', JNum 100),
     (''ignoreNumbers'', JBool False),
     (''encoding'', JNull),
     (''highlightChanges'', JBool True),
     (''highlightColour'', JStr ''#ffff66''),
     (''markChanges'', JBool False),
     (''doPost'', JBool False),
     (''postParams'', JNull),
     (''state'', Page_NO_CHANGE),
     (''error'', JNull),
     (''errorMessage'', JNull),
     (''lastAutoscanTime'', JNull),
     (''oldScanTime'', JNull),
     (''newScanTime'', JNull)]"

text \<open>\<open>Page._KEY(id)\<close>: the storage key of the Page object.\<close>

definition KEY :: "string \<Rightarrow> string" where
  "KEY i = ''page:'' @ i"

text \<open>\<open>new Page(id, data)\<close>: every property of \<open>data\<close>, or its default.\<close>

definition propOrDefault :: "jsobject \<Rightarrow> string \<Rightarrow> jsval" where
  "propOrDefault data k = orDefault (getProp data k) (getProp DEFAULTS k)"

definition newPage :: "string \<Rightarrow> jsobject \<Rightarrow> Page" where
  "newPage i data =
    \<lparr> id' = i,
      title = propOrDefault data ''title'',
      url = propOrDefault data ''url'',
      scanRateMinutes = propOrDefault data ''scanRateMinutes'',
      changeThreshold = propOrDefault data ''changeThreshold'',
      ignoreNumbers = propOrDefault data ''ignoreNumbers'',
      encoding = propOrDefault data ''encoding'',
      highlightChanges = propOrDefault data ''highlightChanges'',
      highlightColour = propOrDefault data ''highlightColour'',
      markChanges = propOrDefault data ''markChanges'',
      doPost = propOrDefault data ''doPost'',
      postParams = propOrDefault data ''postParams'',
      state = propOrDefault data ''state'',
      error = propOrDefault data ''error'',
      errorMessage = propOrDefault data ''errorMessage'',
      lastAutoscanTime = propOrDefault data ''lastAutoscanTime'',
      oldScanTime = propOrDefault data ''oldScanTime'',
      newScanTime = propOrDefault data ''newScanTime'' \<rparr>"

text \<open>\<open>page._toObject()\<close>.\<close>

definition toObject :: "Page \<Rightarrow> jsobject" where
  "toObject p =
    [(''title'', title p),
     (''url'', url p),
     (''scanRateMinutes'', scanRateMinutes p),
     (''changeThreshold'', changeThreshold p),
     (''ignoreNumbers'', ignoreNumbers p),
     (''encoding'', encoding p),
     (''highlightChanges'', highlightChanges p),
     (''highlightColour'', highlightColour p),
     (''markChanges'', markChanges p),
     (''doPost'', doPost p),
     (''postParams'', postParams p),
     (''state'', state p),
     (''error'', error p),
     (''errorMessage'', errorMessage p),
     (''lastAutoscanTime'', lastAutoscanTime p),
     (''oldScanTime'', oldScanTime p),
     (''newScanTime'', newScanTime p)]"

text \<open>The fields of a Page none of which is \<open>undefined\<close>.\<close>

definition allDefined :: "Page \<Rightarrow> bool" where
  "allDefined p =
    list_all (\<lambda>v. v \<noteq> JUndefined) (map snd (toObject p))"

section \<open>The text comparator (module fuzzy)\<close>

text \<open>
  The module \<open>./fuzzy\<close> that \<open>Scan\<close> imports is not among the sources; only the call
  \<open>Fuzzy.isMajorChange(html1, html2, changeThreshold)\<close> is. Its contract is taken
  from section 4.1 of the spec.
\<close>

text \<open>
  Modelled from the spec: the length of a longest common subsequence of two texts,
  the part of them that a character-level diff leaves alone (the diff of module
  \<open>./fuzzy\<close> is missing, and the spec leaves the algorithm open).
\<close>

fun lcs :: "string \<Rightarrow> string \<Rightarrow> nat" where
  "lcs [] ys = 0"
| "lcs (x # xs) [] = 0"
| "lcs (x # xs) (y # ys) =
    (if x = y then Suc (lcs xs ys) else max (lcs xs (y # ys)) (lcs (x # xs) ys))"

text \<open>
  Modelled from the spec: the magnitude of the difference (missing with module
  \<open>./fuzzy\<close>), "the length of inserted and deleted spans" summed, "common subsequence
  spans do not count".
\<close>

definition diffMagnitude :: "string \<Rightarrow> string \<Rightarrow> nat" where
  "diffMagnitude oldText newText =
    (length oldText - lcs oldText newText) + (length newText - lcs oldText newText)"

text \<open>
  Modelled from the spec: \<open>isMajorChange(oldText, newText, threshold)\<close> of the missing
  module \<open>./fuzzy\<close>, "true iff the magnitude of difference between the two texts meets
  or exceeds threshold", compared with \<open>>=\<close>. The measure is a parameter, since any
  diff may stand behind it.
\<close>

definition isMajorChange :: "(string \<Rightarrow> string \<Rightarrow> nat) \<Rightarrow> string \<Rightarrow> string \<Rightarrow> int \<Rightarrow> bool" where
  "isMajorChange magnitude oldText newText threshold =
    (int (magnitude oldText newText) \<ge> threshold)"

text \<open>
  Modelled from the spec: \<open>Fuzzy.isMajorChange\<close> of the missing module \<open>./fuzzy\<close> as
  \<open>Scan\<close> calls it, with the page's \<open>changeThreshold\<close> property as it stands and the
  character-level measure. The spec defines the comparison for an integer threshold
  only; for any other value this definition reports no major change.
\<close>

definition Fuzzy_isMajorChange :: "string \<Rightarrow> string \<Rightarrow> jsval \<Rightarrow> bool" where
  "Fuzzy_isMajorChange html1 html2 threshold =
    (case threshold of
       JNum t \<Rightarrow> isMajorChange diffMagnitude html1 html2 t
     | _ \<Rightarrow> False)"

section \<open>Scan: classification and the page state machine\<close>

text \<open>\<open>Scan.changeEnum\<close>: the four results of \<open>_getChangeType\<close>.\<close>

datatype changeEnum = NEW_CONTENT | NO_CHANGE | MAJOR_CHANGE | MINOR_CHANGE

text \<open>
  \<open>Scan._getChangeType(html1, html2, changeThreshold)\<close>. The comparator is the first
  argument of the model; the threshold is handed to it as it is. The function has no
  parameter for the page's \<open>ignoreNumbers\<close> flag.
\<close>

definition getChangeType :: "(string \<Rightarrow> string \<Rightarrow> 't \<Rightarrow> bool) \<Rightarrow> string \<Rightarrow> string \<Rightarrow> 't \<Rightarrow> changeEnum" where
  "getChangeType fuzzy html1 html2 threshold =
    (if html1 = [] then NEW_CONTENT
     else if html1 = html2 then NO_CHANGE
     else if fuzzy html1 html2 threshold then MAJOR_CHANGE
     else MINOR_CHANGE)"

text \<open>
  The calls that \<open>Scan\<close> makes on the stores: \<open>PageStore.saveHtml(id, type, html)\<close> and,
  inside \<open>page.save()\<close>, \<open>Storage.save(Page._KEY(id), page._toObject())\<close>. The object
  is built when \<open>save\<close> is called. Neither call is awaited.
\<close>

datatype htmlTypes = OLD | NEW

datatype storeOp = SaveHtml string htmlTypes string | SavePage string jsobject

text \<open>
  The body of \<open>Scan._updatePageState\<close> once the change type is known: the \<open>switch\<close>
  (the snapshot saves and the state), then \<open>page.error = false\<close>,
  \<open>page.errorMessage = ''\<close> and \<open>page.save()\<close>. The result is the page as mutated
  and the store calls in the order they are made. \<open>page.state != CHANGED\<close> compares a
  property with a string: among the values of \<open>jsval\<close> only that string is equal to it.
\<close>

definition applyChange :: "changeEnum \<Rightarrow> Page \<Rightarrow> string \<Rightarrow> string \<Rightarrow> Page \<times> storeOp list" where
  "applyChange change page prevHtml scannedHtml =
    (let (page1, saves) =
       (case change of
          NEW_CONTENT \<Rightarrow>
            (if state page \<noteq> Page_CHANGED then page\<lparr>state := Page_NO_CHANGE\<rparr> else page,
             [SaveHtml (id' page) NEW scannedHtml])
        | MINOR_CHANGE \<Rightarrow>
            (if state page \<noteq> Page_CHANGED then page\<lparr>state := Page_NO_CHANGE\<rparr> else page,
             [SaveHtml (id' page) NEW scannedHtml])
        | MAJOR_CHANGE \<Rightarrow>
            (page\<lparr>state := Page_CHANGED\<rparr>,
             (if state page \<noteq> Page_CHANGED then [SaveHtml (id' page) OLD prevHtml] else [])
             @ [SaveHtml (id' page) NEW scannedHtml])
        | NO_CHANGE \<Rightarrow>
            (if state page \<noteq> Page_CHANGED then page\<lparr>state := Page_NO_CHANGE\<rparr> else page,
             []));
         page2 = page1\<lparr>error := JBool False, errorMessage := JStr []\<rparr>
     in (page2, saves @ [SavePage (KEY (id' page2)) (toObject page2)]))"

text \<open>\<open>Scan._updatePageState(page, prevHtml, scannedHtml)\<close>.\<close>

definition updatePageState :: "(string \<Rightarrow> string \<Rightarrow> jsval \<Rightarrow> bool) \<Rightarrow> Page \<Rightarrow> string \<Rightarrow> string \<Rightarrow> Page \<times> storeOp list" where
  "updatePageState fuzzy page prevHtml scannedHtml =
    applyChange (getChangeType fuzzy prevHtml scannedHtml (changeThreshold page))
      page prevHtml scannedHtml"

section \<open>Promises, the stores and the event loop\<close>

text \<open>
  \<open>Scan.scan\<close>, \<open>_scanPage\<close> and \<open>_processHtml\<close> are chains of promises. A chain is
  modelled by the instructions it performs, each with its continuation: the callback
  that \<open>then\<close> registers. \<open>Fetch\<close>, \<open>ReadText\<close> and \<open>LoadHtml\<close> are the three
  requests whose promise settles in a later turn of the event loop (\<open>fetch(url)\<close>,
  \<open>response.text()\<close>, \<open>PageStore.loadHtml(id, type)\<close>); the others run at once.
  \<open>Detach t k\<close> starts the chain \<open>t\<close> and goes on with \<open>k\<close> without waiting for it:
  a promise that is created and neither returned nor awaited. \<open>Note\<close> records an
  event in a trace and does nothing else.

  Page objects are shared and mutated, so they live in a heap and the page list holds
  references.
\<close>

type_synonym ref = nat

datatype response = Response (ok: bool) (status: nat) (statusText: string)

datatype 'a settled = Fulfilled 'a | Rejected jsval

datatype event = FetchStarted ref | Classified ref changeEnum | ScanFulfilled

datatype task =
    Halt
  | Fetch jsval "response settled \<Rightarrow> task"
  | ReadText response "string settled \<Rightarrow> task"
  | LoadHtml string htmlTypes "string \<Rightarrow> task"
  | Issue storeOp task
  | GetPage ref "Page \<Rightarrow> task"
  | SetPage ref Page task
  | Detach task task
  | Note event task

text \<open>
  The world: the heap of page objects, the snapshot store (\<open>htmls\<close>), the storage of
  page records, the requests not settled yet, and the trace.
\<close>

datatype pending =
    AwaitFetch jsval "response settled \<Rightarrow> task"
  | AwaitText response "string settled \<Rightarrow> task"
  | AwaitLoad string "string \<Rightarrow> task"

record world =
  heap :: "ref \<Rightarrow> Page"
  htmls :: "string \<times> htmlTypes \<Rightarrow> string"
  storage :: "string \<rightharpoonup> jsobject"
  waiting :: "pending list"
  trace :: "event list"

text \<open>
  Modelled from the spec: what the two stores do with a save. \<open>PageStore\<close>
  (\<open>page/page_store\<close>) and \<open>Storage\<close> (\<open>util/storage\<close>) are not among the sources.
  By section 6 of the spec the snapshot store maps a page id and a slot (OLD or NEW)
  to a text, and the object store maps a key to a value. An absent snapshot is the
  empty string, which \<open>_getChangeType\<close> reads as the first scan. The stores serve the
  calls in the order they are made: a save is visible to every later load, and a load
  delivers the snapshot that was stored when it was requested (see \<open>exec\<close>).
\<close>

definition perform :: "storeOp \<Rightarrow> world \<Rightarrow> world" where
  "perform op w =
    (case op of
       SaveHtml i t html \<Rightarrow> w\<lparr>htmls := (htmls w)((i, t) := html)\<rparr>
     | SavePage k obj \<Rightarrow> w\<lparr>storage := (storage w)(k \<mapsto> obj)\<rparr>)"

text \<open>Running a chain until each of its branches waits for a request or ends.\<close>

primrec exec :: "task \<Rightarrow> world \<Rightarrow> world" where
  "exec Halt w = w"
| "exec (Fetch u k) w = w\<lparr>waiting := waiting w @ [AwaitFetch u k]\<rparr>"
| "exec (ReadText r k) w = w\<lparr>waiting := waiting w @ [AwaitText r k]\<rparr>"
| "exec (LoadHtml i t k) w = w\<lparr>waiting := waiting w @ [AwaitLoad (htmls w (i, t)) k]\<rparr>"
| "exec (Issue op k) w = exec k (perform op w)"
| "exec (GetPage r f) w = exec (f (heap w r)) w"
| "exec (SetPage r p k) w = exec k (w\<lparr>heap := (heap w)(r := p)\<rparr>)"
| "exec (Detach t k) w = exec k (exec t w)"
| "exec (Note e k) w = exec k (w\<lparr>trace := trace w @ [e]\<rparr>)"

text \<open>
  A turn of the event loop: one waiting request settles (the environment picks it,
  and for a fetch or a body read says how) and its continuation runs. Promise
  reactions are microtasks: they all run before the next request settles, which is
  what \<open>exec\<close> does.
\<close>

datatype completion =
    FetchSettles nat "response settled"
  | TextSettles nat "string settled"
  | LoadSettles nat

definition dropWaiting :: "nat \<Rightarrow> world \<Rightarrow> world" where
  "dropWaiting i w = w\<lparr>waiting := take i (waiting w) @ drop (Suc i) (waiting w)\<rparr>"

definition settle :: "completion \<Rightarrow> world \<Rightarrow> world option" where
  "settle c w =
    (case c of
       FetchSettles i res \<Rightarrow>
         (if i < length (waiting w) then
            (case waiting w ! i of
               AwaitFetch u k \<Rightarrow> Some (exec (k res) (dropWaiting i w))
             | _ \<Rightarrow> None)
          else None)
     | TextSettles i res \<Rightarrow>
         (if i < length (waiting w) then
            (case waiting w ! i of
               AwaitText r k \<Rightarrow> Some (exec (k res) (dropWaiting i w))
             | _ \<Rightarrow> None)
          else None)
     | LoadSettles i \<Rightarrow>
         (if i < length (waiting w) then
            (case waiting w ! i of
               AwaitLoad html k \<Rightarrow> Some (exec (k html) (dropWaiting i w))
             | _ \<Rightarrow> None)
          else None))"

fun run :: "completion list \<Rightarrow> world \<Rightarrow> world option" where
  "run [] w = Some w"
| "run (c # cs) w = (case settle c w of None \<Rightarrow> None | Some w' \<Rightarrow> run cs w')"

section \<open>Scan: the orchestrator\<close>

text \<open>\<open>'[' + response.status + '] ' + response.statusText\<close> needs the decimal digits.\<close>

fun showNat :: "nat \<Rightarrow> string" where
  "showNat n =
    (if n < 10 then [''0123456789'' ! n]
     else showNat (n div 10) @ [''0123456789'' ! (n mod 10)])"

declare showNat.simps [simp del]

text \<open>The local function \<open>checkStatus\<close> of \<open>_scanPage\<close>.\<close>

definition checkStatus :: "response \<Rightarrow> response settled" where
  "checkStatus response =
    (if ok response then Fulfilled response
     else Rejected (JStr (''['' @ showNat (status response) @ ''] '' @ statusText response)))"

text \<open>
  The \<open>catch\<close> callback of \<open>_scanPage\<close>: \<open>page.error = true\<close>,
  \<open>page.errorMessage = error\<close>. (The \<open>console.log\<close> before them changes nothing
  that is modelled.) The promise that \<open>catch\<close> returns is fulfilled, so the chain goes
  on with \<open>k\<close>.
\<close>

definition catchError :: "ref \<Rightarrow> jsval \<Rightarrow> task \<Rightarrow> task" where
  "catchError page err k =
    GetPage page (\<lambda>p. SetPage page (p\<lparr>error := JBool True, errorMessage := err\<rparr>) k)"

text \<open>
  \<open>Scan._updatePageState\<close> on the page object: the page is mutated and the store
  calls are made, none awaited. The trace notes the change type that was found.
\<close>

definition doUpdatePageState :: "(string \<Rightarrow> string \<Rightarrow> jsval \<Rightarrow> bool) \<Rightarrow> ref \<Rightarrow> string \<Rightarrow> string \<Rightarrow> task" where
  "doUpdatePageState fuzzy page prevHtml scannedHtml =
    GetPage page (\<lambda>p.
      Note (Classified page (getChangeType fuzzy prevHtml scannedHtml (changeThreshold p)))
        (case updatePageState fuzzy p prevHtml scannedHtml of
           (p', ops) \<Rightarrow> SetPage page p' (foldr Issue ops Halt)))"

text \<open>
  \<open>Scan._processHtml(page, scannedHtml)\<close>: the promise of \<open>PageStore.loadHtml\<close> and
  its \<open>then\<close> are not returned (the function has no \<open>return\<close>), so the caller goes on
  with \<open>k\<close> while the load is waiting.
\<close>

definition processHtml :: "(string \<Rightarrow> string \<Rightarrow> jsval \<Rightarrow> bool) \<Rightarrow> ref \<Rightarrow> string \<Rightarrow> task \<Rightarrow> task" where
  "processHtml fuzzy page scannedHtml k =
    GetPage page (\<lambda>p.
      Detach
        (LoadHtml (id' p) NEW (\<lambda>prevHtml. doUpdatePageState fuzzy page prevHtml scannedHtml))
        k)"

text \<open>
  \<open>Scan._scanPage(page)\<close>:
  \<open>fetch(page.url).then(checkStatus).then(response.text).then(_processHtml).catch(...)\<close>.
  A rejection at any step skips to the \<open>catch\<close> callback.
\<close>

definition scanPage :: "(string \<Rightarrow> string \<Rightarrow> jsval \<Rightarrow> bool) \<Rightarrow> ref \<Rightarrow> task \<Rightarrow> task" where
  "scanPage fuzzy page k =
    GetPage page (\<lambda>p.
      Note (FetchStarted page)
        (Fetch (url p) (\<lambda>fetched.
          case fetched of
            Rejected err \<Rightarrow> catchError page err k
          | Fulfilled response \<Rightarrow>
              (case checkStatus response of
                 Rejected err \<Rightarrow> catchError page err k
               | Fulfilled response' \<Rightarrow>
                   ReadText response' (\<lambda>body.
                     case body of
                       Rejected err \<Rightarrow> catchError page err k
                     | Fulfilled html \<Rightarrow> processHtml fuzzy page html k)))))"

text \<open>
  \<open>Scan.scan(pageList)\<close>: \<open>forEach\<close> appends one \<open>then\<close> per page to the chain, each
  calling \<open>_scanPage\<close>; \<open>k\<close> is what the caller chains to the promise returned.
\<close>

definition scan :: "(string \<Rightarrow> string \<Rightarrow> jsval \<Rightarrow> bool) \<Rightarrow> ref list \<Rightarrow> task \<Rightarrow> task" where
  "scan fuzzy pageList k = foldr (scanPage fuzzy) pageList k"

section \<open>Sequences of scans and concrete inputs\<close>

text \<open>
  The page after each of a sequence of scans, each given by the change type found
  and the two texts.
\<close>

fun applyChanges :: "Page \<Rightarrow> (changeEnum \<times> string \<times> string) list \<Rightarrow> Page list" where
  "applyChanges page [] = []"
| "applyChanges page ((c, prevHtml, scannedHtml) # rest) =
    (let page' = fst (applyChange c page prevHtml scannedHtml)
     in page' # applyChanges page' rest)"

text \<open>
  Two pages as \<open>Page.load\<close> builds them, and a world that holds them: page \<open>p1\<close>
  has \<open>ignoreNumbers\<close> set and a threshold of one character, both pages have a stored
  record and a NEW snapshot, nothing is waiting.
\<close>

definition examplePage :: Page where
  "examplePage =
    newPage ''p1''
      [(''url'', JStr ''http://a/''), (''changeThreshold'', JNum 1),
       (''ignoreNumbers'', JBool True)]"

definition examplePage2 :: Page where
  "examplePage2 =
    newPage ''p2'' [(''url'', JStr ''http://b/''), (''changeThreshold'', JNum 5)]"

definition exampleWorld :: world where
  "exampleWorld =
    \<lparr> heap = (\<lambda>_. newPage [] [])(0 := examplePage, 1 := examplePage2),
      htmls = (\<lambda>_. [])((''p1'', NEW) := ''Count: 5'', (''p2'', NEW) := ''hello''),
      storage = [KEY ''p1'' \<mapsto> toObject examplePage, KEY ''p2'' \<mapsto> toObject examplePage2],
      waiting = [],
      trace = [] \<rparr>"

text \<open>The same world with page \<open>p1\<close> already marked as changed.\<close>

definition changedWorld :: world where
  "changedWorld =
    exampleWorld\<lparr>heap := (heap exampleWorld)(0 := examplePage\<lparr>state := Page_CHANGED\<rparr>),
                  htmls := (htmls exampleWorld)((''p1'', OLD) := ''Count: 1'')\<rparr>"

section \<open>Basic facts\<close>

lemma Page_states_distinct [simp]:
  "Page_NO_CHANGE \<noteq> Page_CHANGED" "Page_CHANGED \<noteq> Page_NO_CHANGE"
  by (simp_all add: Page_NO_CHANGE_def Page_CHANGED_def)

lemma examplePage_fields [simp]:
  "id' examplePage = ''p1''"
  "url examplePage = JStr ''http://a/''"
  "changeThreshold examplePage = JNum 1"
  "ignoreNumbers examplePage = JBool True"
  "encoding examplePage = JNull"
  "state examplePage = Page_NO_CHANGE"
  "error examplePage = JNull"
  by (simp_all add: examplePage_def newPage_def propOrDefault_def getProp_def orDefault_def
      DEFAULTS_def)

lemma examplePage2_fields [simp]:
  "id' examplePage2 = ''p2''"
  "url examplePage2 = JStr ''http://b/''"
  "changeThreshold examplePage2 = JNum 5"
  "state examplePage2 = Page_NO_CHANGE"
  by (simp_all add: examplePage2_def newPage_def propOrDefault_def getProp_def orDefault_def
      DEFAULTS_def)

lemma KEY_inject [simp]: "KEY i = KEY j \<longleftrightarrow> i = j"
  by (simp add: KEY_def)

lemma exampleWorld_fields [simp]:
  "heap exampleWorld 0 = examplePage"
  "heap exampleWorld (Suc 0) = examplePage2"
  "htmls exampleWorld (''p1'', NEW) = ''Count: 5''"
  "htmls exampleWorld (''p1'', OLD) = []"
  "htmls exampleWorld (''p2'', NEW) = ''hello''"
  "storage exampleWorld (KEY ''p1'') = Some (toObject examplePage)"
  "storage exampleWorld (KEY ''p2'') = Some (toObject examplePage2)"
  "waiting exampleWorld = []"
  "trace exampleWorld = []"
  by (simp_all add: exampleWorld_def)

lemma changedWorld_fields [simp]:
  "heap changedWorld 0 = examplePage\<lparr>state := Page_CHANGED\<rparr>"
  "htmls changedWorld (''p1'', NEW) = ''Count: 5''"
  "htmls changedWorld (''p1'', OLD) = ''Count: 1''"
  "waiting changedWorld = []"
  "trace changedWorld = []"
  by (simp_all add: changedWorld_def)

lemmas fuzzy_defs =
  getChangeType_def Fuzzy_isMajorChange_def isMajorChange_def diffMagnitude_def

lemmas scan_defs =
  scan_def scanPage_def checkStatus_def catchError_def settle_def dropWaiting_def

section \<open>The Page record survives storage\<close>

lemma propOrDefault_toObject:
  "propOrDefault (toObject p) ''title'' = orDefault (title p) (JStr ''New Page'')"
  "propOrDefault (toObject p) ''url'' = orDefault (url p) JNull"
  "propOrDefault (toObject p) ''scanRateMinutes'' = orDefault (scanRateMinutes p) (JNum 1440)"
  "propOrDefault (toObject p) ''changeThreshold'' = orDefault (changeThreshold p) (JNum 100)"
  "propOrDefault (toObject p) ''ignoreNumbers'' = orDefault (ignoreNumbers p) (JBool False)"
  "propOrDefault (toObject p) ''encoding'' = orDefault (encoding p) JNull"
  "propOrDefault (toObject p) ''highlightChanges'' = orDefault (highlightChanges p) (JBool True)"
  "propOrDefault (toObject p) ''highlightColour'' = orDefault (highlightColour p) (JStr ''#ffff66'')"
  "propOrDefault (toObject p) ''markChanges'' = orDefault (markChanges p) (JBool False)"
  "propOrDefault (toObject p) ''doPost'' = orDefault (doPost p) (JBool False)"
  "propOrDefault (toObject p) ''postParams'' = orDefault (postParams p) JNull"
  "propOrDefault (toObject p) ''state'' = orDefault (state p) Page_NO_CHANGE"
  "propOrDefault (toObject p) ''error'' = orDefault (error p) JNull"
  "propOrDefault (toObject p) ''errorMessage'' = orDefault (errorMessage p) JNull"
  "propOrDefault (toObject p) ''lastAutoscanTime'' = orDefault (lastAutoscanTime p) JNull"
  "propOrDefault (toObject p) ''oldScanTime'' = orDefault (oldScanTime p) JNull"
  "propOrDefault (toObject p) ''newScanTime'' = orDefault (newScanTime p) JNull"
  by (simp_all add: propOrDefault_def toObject_def getProp_def DEFAULTS_def)

lemma newPage_toObject:
  "newPage i (toObject p) =
    \<lparr> id' = i,
      title = orDefault (title p) (JStr ''New Page''),
      url = orDefault (url p) JNull,
      scanRateMinutes = orDefault (scanRateMinutes p) (JNum 1440),
      changeThreshold = orDefault (changeThreshold p) (JNum 100),
      ignoreNumbers = orDefault (ignoreNumbers p) (JBool False),
      encoding = orDefault (encoding p) JNull,
      highlightChanges = orDefault (highlightChanges p) (JBool True),
      highlightColour = orDefault (highlightColour p) (JStr ''#ffff66''),
      markChanges = orDefault (markChanges p) (JBool False),
      doPost = orDefault (doPost p) (JBool False),
      postParams = orDefault (postParams p) JNull,
      state = orDefault (state p) Page_NO_CHANGE,
      error = orDefault (error p) JNull,
      errorMessage = orDefault (errorMessage p) JNull,
      lastAutoscanTime = orDefault (lastAutoscanTime p) JNull,
      oldScanTime = orDefault (oldScanTime p) JNull,
      newScanTime = orDefault (newScanTime p) JNull \<rparr>"
  unfolding newPage_def by (simp only: propOrDefault_toObject)

lemma orDefault_defined: "v \<noteq> JUndefined \<Longrightarrow> orDefault v d = v"
  by (simp add: orDefault_def)

text \<open>
  Claim C10. For every Page whose fields are all defined (\<open>null\<close> included), building
  a Page from its id and its \<open>_toObject()\<close> gives the same Page, field by field: no
  default of the constructor is taken.
\<close>

theorem page_roundtrip:
  assumes "allDefined p"
  shows "newPage (id' p) (toObject p) = p"
proof -
  from assms have
    "title p \<noteq> JUndefined" "url p \<noteq> JUndefined" "scanRateMinutes p \<noteq> JUndefined"
    "changeThreshold p \<noteq> JUndefined" "ignoreNumbers p \<noteq> JUndefined"
    "encoding p \<noteq> JUndefined" "highlightChanges p \<noteq> JUndefined"
    "highlightColour p \<noteq> JUndefined" "markChanges p \<noteq> JUndefined"
    "doPost p \<noteq> JUndefined" "postParams p \<noteq> JUndefined" "state p \<noteq> JUndefined"
    "error p \<noteq> JUndefined" "errorMessage p \<noteq> JUndefined"
    "lastAutoscanTime p \<noteq> JUndefined" "oldScanTime p \<noteq> JUndefined"
    "newScanTime p \<noteq> JUndefined"
    by (simp_all add: allDefined_def toObject_def)
  then show ?thesis
    by (simp add: newPage_toObject orDefault_defined)
qed

theorem page_roundtrip_witness:
  "allDefined examplePage \<and>
   url examplePage = JStr ''http://a/'' \<and> encoding examplePage = JNull \<and>
   newPage (id' examplePage) (toObject examplePage) = examplePage"
proof -
  have h: "allDefined examplePage"
    by (simp add: allDefined_def toObject_def examplePage_def newPage_def propOrDefault_def
        getProp_def orDefault_def DEFAULTS_def Page_NO_CHANGE_def)
  from page_roundtrip [OF h] h show ?thesis by simp
qed

text \<open>The hypothesis is needed: an \<open>undefined\<close> field comes back as its default.\<close>

lemma roundtrip_undefined:
  "title (newPage i (toObject (p\<lparr>title := JUndefined\<rparr>))) = JStr ''New Page''"
  by (simp add: newPage_toObject orDefault_def)

section \<open>The classifier\<close>

text \<open>
  Claim C5. The decision order of \<open>_getChangeType\<close>: an empty old text gives
  NEW_CONTENT, also when the new text is empty too; otherwise equal texts give
  NO_CHANGE whatever the comparator is (it is not consulted); otherwise the
  comparator decides between MAJOR_CHANGE and MINOR_CHANGE.
\<close>

theorem getChangeType_order:
  "(html1 = [] \<longrightarrow> getChangeType fuzzy html1 html2 t = NEW_CONTENT) \<and>
   getChangeType fuzzy [] [] t = NEW_CONTENT \<and>
   (html1 \<noteq> [] \<and> html1 = html2 \<longrightarrow> (\<forall>cmp. getChangeType cmp html1 html2 t = NO_CHANGE)) \<and>
   (html1 \<noteq> [] \<and> html1 \<noteq> html2 \<longrightarrow>
      getChangeType fuzzy html1 html2 t =
        (if fuzzy html1 html2 t then MAJOR_CHANGE else MINOR_CHANGE))"
  by (auto simp: getChangeType_def)

theorem getChangeType_order_witness:
  "getChangeType (\<lambda>a b t. True) [] ''anything'' (5::int) = NEW_CONTENT \<and>
   getChangeType (\<lambda>a b t. True) ''same'' ''same'' (0::int) = NO_CHANGE \<and>
   getChangeType (isMajorChange diffMagnitude) ''abc'' ''abd'' 2 = MAJOR_CHANGE \<and>
   getChangeType (isMajorChange diffMagnitude) ''abc'' ''abd'' 3 = MINOR_CHANGE"
  using getChangeType_order [of "[]" "\<lambda>a b t. True" "''anything''" "5::int"]
    getChangeType_order [of "''same''" "\<lambda>a b t. True" "''same''" "0::int"]
    getChangeType_order [of "''abc''" "isMajorChange diffMagnitude" "''abd''" 2]
    getChangeType_order [of "''abc''" "isMajorChange diffMagnitude" "''abd''" 3]
  by (simp add: isMajorChange_def diffMagnitude_def)

text \<open>
  Claim C6, as stated, fails: a pair of texts whose magnitude is exactly the
  threshold is not classified MAJOR_CHANGE when the old text is empty (NEW_CONTENT)
  or when the texts are equal and the threshold is zero (NO_CHANGE); and a pair of
  distinct texts whose magnitude is one below the threshold is NEW_CONTENT, not
  MINOR_CHANGE, when the old text is empty.
\<close>

theorem threshold_boundary_counterexample:
  "int (diffMagnitude [] ''abc'') = 3 \<and>
   getChangeType (isMajorChange diffMagnitude) [] ''abc'' 3 = NEW_CONTENT \<and>
   int (diffMagnitude ''same'' ''same'') = 0 \<and>
   getChangeType (isMajorChange diffMagnitude) ''same'' ''same'' 0 = NO_CHANGE \<and>
   [] \<noteq> ''abc'' \<and> int (diffMagnitude [] ''abc'') = 4 - 1 \<and>
   getChangeType (isMajorChange diffMagnitude) [] ''abc'' 4 = NEW_CONTENT"
  by (simp add: diffMagnitude_def getChangeType_def)

text \<open>
  Claim C6, amended. For every measure of the difference, every non-empty old text
  and every new text distinct from it: when the measured magnitude is exactly the
  threshold the classification is MAJOR_CHANGE, and when it is one below the
  threshold the classification is MINOR_CHANGE.
\<close>

theorem threshold_boundary:
  assumes "html1 \<noteq> []" and "html1 \<noteq> html2"
  shows "(int (magnitude html1 html2) = t \<longrightarrow>
            getChangeType (isMajorChange magnitude) html1 html2 t = MAJOR_CHANGE) \<and>
         (int (magnitude html1 html2) = t - 1 \<longrightarrow>
            getChangeType (isMajorChange magnitude) html1 html2 t = MINOR_CHANGE)"
  using assms by (simp add: getChangeType_def isMajorChange_def)

theorem threshold_boundary_witness:
  "''Count: 5'' \<noteq> [] \<and> ''Count: 5'' \<noteq> ''Count: 9'' \<and>
   int (diffMagnitude ''Count: 5'' ''Count: 9'') = 2 \<and>
   getChangeType (isMajorChange diffMagnitude) ''Count: 5'' ''Count: 9'' 2 = MAJOR_CHANGE \<and>
   int (diffMagnitude ''Count: 5'' ''Count: 9'') = 3 - 1 \<and>
   getChangeType (isMajorChange diffMagnitude) ''Count: 5'' ''Count: 9'' 3 = MINOR_CHANGE"
proof -
  have a: "''Count: 5'' \<noteq> []" by simp
  have b: "''Count: 5'' \<noteq> ''Count: 9''" by simp
  have m: "int (diffMagnitude ''Count: 5'' ''Count: 9'') = 2"
    by (simp add: diffMagnitude_def)
  from threshold_boundary [OF a b, of diffMagnitude 2]
    threshold_boundary [OF a b, of diffMagnitude 3] m
  show ?thesis by simp
qed

lemma applyChange_state:
  "state (fst (applyChange c page prevHtml scannedHtml)) =
    (if c = MAJOR_CHANGE \<or> state page = Page_CHANGED then Page_CHANGED else Page_NO_CHANGE)"
  by (cases c) (simp_all add: applyChange_def Let_def)

text \<open>
  The \<open>ignoreNumbers\<close> flag of the page has no effect on \<open>_updatePageState\<close>: the
  state and the snapshot saves are the same whatever it is.
\<close>

lemma updatePageState_ignoreNumbers:
  "state (fst (updatePageState fuzzy (page\<lparr>ignoreNumbers := b\<rparr>) prevHtml scannedHtml)) =
   state (fst (updatePageState fuzzy page prevHtml scannedHtml))"
  "butlast (snd (updatePageState fuzzy (page\<lparr>ignoreNumbers := b\<rparr>) prevHtml scannedHtml)) =
   butlast (snd (updatePageState fuzzy page prevHtml scannedHtml))"
  by (cases "getChangeType fuzzy prevHtml scannedHtml (changeThreshold page)";
      simp add: updatePageState_def applyChange_def Let_def)+

text \<open>
  Claim C1, on the code. For every comparator, page and pair of texts, the state
  after \<open>_updatePageState\<close> is the same with \<open>ignoreNumbers\<close> true as with it false.
  In particular the page \<open>p1\<close> has \<open>ignoreNumbers = true\<close> and a threshold of one
  character: its stored text \<open>Count: 5\<close> against the fetched \<open>Count: 9\<close>, a change of
  one digit, is classified MAJOR_CHANGE and the page becomes CHANGED. The flag is not
  consulted and no digit run is normalised.
\<close>

theorem ignoreNumbers_not_consulted:
  "state (fst (updatePageState fuzzy (page\<lparr>ignoreNumbers := JBool True\<rparr>) prevHtml scannedHtml)) =
   state (fst (updatePageState fuzzy (page\<lparr>ignoreNumbers := JBool False\<rparr>) prevHtml scannedHtml)) \<and>
   ignoreNumbers examplePage = JBool True \<and>
   changeThreshold examplePage = JNum 1 \<and>
   state examplePage = Page_NO_CHANGE \<and>
   getChangeType Fuzzy_isMajorChange ''Count: 5'' ''Count: 9'' (changeThreshold examplePage)
     = MAJOR_CHANGE \<and>
   state (fst (updatePageState Fuzzy_isMajorChange examplePage ''Count: 5'' ''Count: 9''))
     = Page_CHANGED"
  by (simp add: updatePageState_ignoreNumbers fuzzy_defs updatePageState_def applyChange_state)

section \<open>The page state machine\<close>

lemma length_applyChanges [simp]: "length (applyChanges page steps) = length steps"
  by (induction steps arbitrary: page) (auto simp: Let_def)

lemma applyChanges_stays_CHANGED:
  "state page = Page_CHANGED \<Longrightarrow> j < length steps \<Longrightarrow>
   state (applyChanges page steps ! j) = Page_CHANGED"
proof (induction steps arbitrary: page j)
  case Nil
  then show ?case by simp
next
  case (Cons s steps)
  obtain c prevHtml scannedHtml where s: "s = (c, prevHtml, scannedHtml)"
    by (cases s) auto
  have next_changed: "state (fst (applyChange c page prevHtml scannedHtml)) = Page_CHANGED"
    using Cons.prems(1) by (simp add: applyChange_state)
  show ?case
  proof (cases j)
    case 0
    then show ?thesis using next_changed by (simp add: s Let_def)
  next
    case (Suc j')
    then have "j' < length steps" using Cons.prems(2) by simp
    from Cons.IH [OF next_changed this] show ?thesis by (simp add: s Let_def Suc)
  qed
qed

text \<open>
  Claim C4. For every page (in state NO_CHANGE or any other) and every sequence of
  change types applied to it: once the state after some step is CHANGED, the state
  after every later step is CHANGED.
\<close>

theorem state_monotonic:
  assumes "i \<le> j" and "j < length steps"
    and "state (applyChanges page steps ! i) = Page_CHANGED"
  shows "state (applyChanges page steps ! j) = Page_CHANGED"
  using assms
proof (induction steps arbitrary: page i j)
  case Nil
  then show ?case by simp
next
  case (Cons s steps)
  obtain c prevHtml scannedHtml where s: "s = (c, prevHtml, scannedHtml)"
    by (cases s) auto
  let ?p = "fst (applyChange c page prevHtml scannedHtml)"
  show ?case
  proof (cases i)
    case 0
    with Cons.prems(3) have changed: "state ?p = Page_CHANGED" by (simp add: s Let_def)
    show ?thesis
    proof (cases j)
      case 0
      then show ?thesis using changed by (simp add: s Let_def)
    next
      case (Suc j')
      then have "j' < length steps" using Cons.prems(2) by simp
      from applyChanges_stays_CHANGED [OF changed this]
      show ?thesis by (simp add: s Let_def Suc)
    qed
  next
    case (Suc i')
    then obtain j' where j: "j = Suc j'" using Cons.prems(1) by (cases j) auto
    have "i' \<le> j'" "j' < length steps" using Cons.prems(1,2) Suc j by auto
    moreover have "state (applyChanges ?p steps ! i') = Page_CHANGED"
      using Cons.prems(3) by (simp add: s Let_def Suc)
    ultimately have "state (applyChanges ?p steps ! j') = Page_CHANGED"
      by (rule Cons.IH)
    then show ?thesis by (simp add: s Let_def j)
  qed
qed

theorem state_monotonic_witness:
  "state examplePage = Page_NO_CHANGE \<and>
   (1::nat) \<le> 3 \<and>
   (3::nat) < length [(MINOR_CHANGE, ''a'', ''b''), (MAJOR_CHANGE, ''b'', ''c''),
                      (NO_CHANGE, ''c'', ''c''), (MINOR_CHANGE, ''c'', ''d'')] \<and>
   state (applyChanges examplePage
            [(MINOR_CHANGE, ''a'', ''b''), (MAJOR_CHANGE, ''b'', ''c''),
             (NO_CHANGE, ''c'', ''c''), (MINOR_CHANGE, ''c'', ''d'')] ! 1) = Page_CHANGED \<and>
   state (applyChanges examplePage
            [(MINOR_CHANGE, ''a'', ''b''), (MAJOR_CHANGE, ''b'', ''c''),
             (NO_CHANGE, ''c'', ''c''), (MINOR_CHANGE, ''c'', ''d'')] ! 3) = Page_CHANGED"
proof -
  let ?steps = "[(MINOR_CHANGE, ''a'', ''b''), (MAJOR_CHANGE, ''b'', ''c''),
                 (NO_CHANGE, ''c'', ''c''), (MINOR_CHANGE, ''c'', ''d'')]"
  have s: "state examplePage = Page_NO_CHANGE" by simp
  have a: "(1::nat) \<le> 3" by simp
  have b: "(3::nat) < length ?steps" by simp
  have c: "state (applyChanges examplePage ?steps ! 1) = Page_CHANGED"
    by (simp add: Let_def applyChange_state)
  from state_monotonic [OF a b c] s a b c show ?thesis by simp
qed

section \<open>Snapshots and the event loop\<close>

lemma exec_Issue_all:
  "exec (foldr Issue ops k) w = exec k (foldl (\<lambda>w' op. perform op w') w ops)"
  by (induction ops arbitrary: w) simp_all

lemma perform_frame [simp]:
  "trace (perform op w) = trace w" "heap (perform op w) = heap w"
  "waiting (perform op w) = waiting w"
  by (cases op; simp add: perform_def)+

lemma performAll_frame [simp]:
  "trace (foldl (\<lambda>w' op. perform op w') w ops) = trace w"
  "heap (foldl (\<lambda>w' op. perform op w') w ops) = heap w"
  "waiting (foldl (\<lambda>w' op. perform op w') w ops) = waiting w"
  by (induction ops arbitrary: w) simp_all

lemma updatePageState_MAJOR:
  assumes "getChangeType fuzzy prevHtml scannedHtml (changeThreshold page) = MAJOR_CHANGE"
  shows "updatePageState fuzzy page prevHtml scannedHtml =
    (page\<lparr>state := Page_CHANGED, error := JBool False, errorMessage := JStr []\<rparr>,
     (if state page \<noteq> Page_CHANGED then [SaveHtml (id' page) OLD prevHtml] else [])
     @ [SaveHtml (id' page) NEW scannedHtml,
        SavePage (KEY (id' page))
          (toObject (page\<lparr>state := Page_CHANGED, error := JBool False, errorMessage := JStr []\<rparr>))])"
  using assms by (simp add: updatePageState_def applyChange_def Let_def)

lemma updatePageState_NO_CHANGE:
  assumes "getChangeType fuzzy prevHtml scannedHtml (changeThreshold page) = NO_CHANGE"
  shows "updatePageState fuzzy page prevHtml scannedHtml =
    ((if state page \<noteq> Page_CHANGED then page\<lparr>state := Page_NO_CHANGE\<rparr> else page)
       \<lparr>error := JBool False, errorMessage := JStr []\<rparr>,
     [SavePage (KEY (id' page))
        (toObject ((if state page \<noteq> Page_CHANGED then page\<lparr>state := Page_NO_CHANGE\<rparr> else page)
           \<lparr>error := JBool False, errorMessage := JStr []\<rparr>))])"
  using assms by (simp add: updatePageState_def applyChange_def Let_def)

lemma exec_doUpdatePageState:
  "exec (doUpdatePageState fuzzy r prevHtml scannedHtml) w =
    foldl (\<lambda>w' op. perform op w')
      (w\<lparr>trace := trace w @
            [Classified r (getChangeType fuzzy prevHtml scannedHtml (changeThreshold (heap w r)))],
         heap := (heap w)(r := fst (updatePageState fuzzy (heap w r) prevHtml scannedHtml))\<rparr>)
      (snd (updatePageState fuzzy (heap w r) prevHtml scannedHtml))"
  by (simp add: doUpdatePageState_def exec_Issue_all split: prod.split)

lemma exec_processHtml:
  "exec (processHtml fuzzy r scannedHtml k) w =
    exec k (w\<lparr>waiting := waiting w @
      [AwaitLoad (htmls w (id' (heap w r), NEW))
         (\<lambda>prevHtml. doUpdatePageState fuzzy r prevHtml scannedHtml)]\<rparr>)"
  by (simp add: processHtml_def)

lemma settle_last_load:
  "waiting w = ws @ [AwaitLoad html k] \<Longrightarrow>
   settle (LoadSettles (length ws)) w = Some (exec (k html) (w\<lparr>waiting := ws\<rparr>))"
  by (simp add: settle_def dropWaiting_def)

text \<open>
  Claim C7. A page whose NEW snapshot is \<open>X\<close> is handed the fetched text \<open>Y\<close>, and
  the change is classified MAJOR_CHANGE. If the page is not in state CHANGED, the
  saves are \<open>X\<close> into OLD, then \<open>Y\<close> into NEW, and afterwards OLD holds \<open>X\<close> and NEW
  holds \<open>Y\<close>. If the page is already CHANGED, the only snapshot save is \<open>Y\<close> into NEW,
  and OLD holds what it held. (The last save in the list is the page record.)
\<close>

theorem major_change_snapshots:
  assumes "getChangeType fuzzy (htmls w (id' (heap w r), NEW)) scannedHtml
             (changeThreshold (heap w r)) = MAJOR_CHANGE"
  shows "butlast (snd (updatePageState fuzzy (heap w r)
                         (htmls w (id' (heap w r), NEW)) scannedHtml)) =
           (if state (heap w r) \<noteq> Page_CHANGED
            then [SaveHtml (id' (heap w r)) OLD (htmls w (id' (heap w r), NEW)),
                  SaveHtml (id' (heap w r)) NEW scannedHtml]
            else [SaveHtml (id' (heap w r)) NEW scannedHtml]) \<and>
         (\<exists>w'. settle (LoadSettles (length (waiting w)))
                 (exec (processHtml fuzzy r scannedHtml Halt) w) = Some w' \<and>
           htmls w' (id' (heap w r), NEW) = scannedHtml \<and>
           htmls w' (id' (heap w r), OLD) =
             (if state (heap w r) \<noteq> Page_CHANGED then htmls w (id' (heap w r), NEW)
              else htmls w (id' (heap w r), OLD)) \<and>
           state (heap w' r) = Page_CHANGED)"
proof -
  let ?w1 = "exec (processHtml fuzzy r scannedHtml Halt) w"
  have "waiting ?w1 = waiting w @ [AwaitLoad (htmls w (id' (heap w r), NEW))
         (\<lambda>prevHtml. doUpdatePageState fuzzy r prevHtml scannedHtml)]"
    by (simp add: exec_processHtml)
  from settle_last_load [OF this]
  have "settle (LoadSettles (length (waiting w))) ?w1 =
    Some (exec (doUpdatePageState fuzzy r (htmls w (id' (heap w r), NEW)) scannedHtml)
            (?w1\<lparr>waiting := waiting w\<rparr>))" .
  then show ?thesis
    by (simp add: exec_doUpdatePageState exec_processHtml updatePageState_MAJOR [OF assms]
        perform_def)
qed

theorem major_change_snapshots_witness:
  "getChangeType Fuzzy_isMajorChange (htmls exampleWorld (id' (heap exampleWorld 0), NEW))
     ''Count: 9'' (changeThreshold (heap exampleWorld 0)) = MAJOR_CHANGE \<and>
   state (heap exampleWorld 0) = Page_NO_CHANGE \<and>
   htmls exampleWorld (''p1'', NEW) = ''Count: 5'' \<and>
   (\<exists>w'. settle (LoadSettles 0)
            (exec (processHtml Fuzzy_isMajorChange 0 ''Count: 9'' Halt) exampleWorld) = Some w' \<and>
      htmls w' (''p1'', OLD) = ''Count: 5'' \<and> htmls w' (''p1'', NEW) = ''Count: 9'') \<and>
   getChangeType Fuzzy_isMajorChange (htmls changedWorld (id' (heap changedWorld 0), NEW))
     ''Count: 9'' (changeThreshold (heap changedWorld 0)) = MAJOR_CHANGE \<and>
   state (heap changedWorld 0) = Page_CHANGED \<and>
   htmls changedWorld (''p1'', OLD) = ''Count: 1'' \<and>
   (\<exists>w'. settle (LoadSettles 0)
            (exec (processHtml Fuzzy_isMajorChange 0 ''Count: 9'' Halt) changedWorld) = Some w' \<and>
      htmls w' (''p1'', OLD) = ''Count: 1'' \<and> htmls w' (''p1'', NEW) = ''Count: 9'')"
proof -
  have a: "getChangeType Fuzzy_isMajorChange (htmls exampleWorld (id' (heap exampleWorld 0), NEW))
     ''Count: 9'' (changeThreshold (heap exampleWorld 0)) = MAJOR_CHANGE"
    by (simp add: fuzzy_defs)
  have b: "getChangeType Fuzzy_isMajorChange (htmls changedWorld (id' (heap changedWorld 0), NEW))
     ''Count: 9'' (changeThreshold (heap changedWorld 0)) = MAJOR_CHANGE"
    by (simp add: fuzzy_defs)
  from major_change_snapshots [OF a] obtain w1 where w1:
    "settle (LoadSettles (length (waiting exampleWorld)))
       (exec (processHtml Fuzzy_isMajorChange 0 ''Count: 9'' Halt) exampleWorld) = Some w1"
    "htmls w1 (id' (heap exampleWorld 0), NEW) = ''Count: 9''"
    "htmls w1 (id' (heap exampleWorld 0), OLD) =
       (if state (heap exampleWorld 0) \<noteq> Page_CHANGED
        then htmls exampleWorld (id' (heap exampleWorld 0), NEW)
        else htmls exampleWorld (id' (heap exampleWorld 0), OLD))"
    by blast
  from major_change_snapshots [OF b] obtain w2 where w2:
    "settle (LoadSettles (length (waiting changedWorld)))
       (exec (processHtml Fuzzy_isMajorChange 0 ''Count: 9'' Halt) changedWorld) = Some w2"
    "htmls w2 (id' (heap changedWorld 0), NEW) = ''Count: 9''"
    "htmls w2 (id' (heap changedWorld 0), OLD) =
       (if state (heap changedWorld 0) \<noteq> Page_CHANGED
        then htmls changedWorld (id' (heap changedWorld 0), NEW)
        else htmls changedWorld (id' (heap changedWorld 0), OLD))"
    by blast
  have e1: "\<exists>w'. settle (LoadSettles 0)
            (exec (processHtml Fuzzy_isMajorChange 0 ''Count: 9'' Halt) exampleWorld) = Some w' \<and>
      htmls w' (''p1'', OLD) = ''Count: 5'' \<and> htmls w' (''p1'', NEW) = ''Count: 9''"
    using w1 by (intro exI [of _ w1]) simp
  have e2: "\<exists>w'. settle (LoadSettles 0)
            (exec (processHtml Fuzzy_isMajorChange 0 ''Count: 9'' Halt) changedWorld) = Some w' \<and>
      htmls w' (''p1'', OLD) = ''Count: 1'' \<and> htmls w' (''p1'', NEW) = ''Count: 9''"
    using w2 by (intro exI [of _ w2]) simp
  from a b e1 e2 show ?thesis by simp
qed

text \<open>
  Claim C8. When the change is classified NO_CHANGE, \<open>_updatePageState\<close> makes no
  snapshot save (its only store call is the save of the page record), both snapshot
  slots of every page hold what they held, and the state is CHANGED if it was
  CHANGED and NO_CHANGE otherwise.
\<close>

theorem no_change_no_snapshot_writes:
  assumes "getChangeType fuzzy prevHtml scannedHtml (changeThreshold (heap w r)) = NO_CHANGE"
  shows "snd (updatePageState fuzzy (heap w r) prevHtml scannedHtml) =
           [SavePage (KEY (id' (heap w r)))
              (toObject (fst (updatePageState fuzzy (heap w r) prevHtml scannedHtml)))] \<and>
         htmls (exec (doUpdatePageState fuzzy r prevHtml scannedHtml) w) = htmls w \<and>
         state (heap (exec (doUpdatePageState fuzzy r prevHtml scannedHtml) w) r) =
           (if state (heap w r) = Page_CHANGED then Page_CHANGED else Page_NO_CHANGE)"
  by (simp add: exec_doUpdatePageState updatePageState_NO_CHANGE [OF assms] perform_def)

theorem no_change_no_snapshot_writes_witness:
  "getChangeType Fuzzy_isMajorChange ''hello'' ''hello'' (changeThreshold (heap exampleWorld 1))
     = NO_CHANGE \<and>
   htmls (exec (doUpdatePageState Fuzzy_isMajorChange 1 ''hello'' ''hello'') exampleWorld)
     = htmls exampleWorld \<and>
   state (heap (exec (doUpdatePageState Fuzzy_isMajorChange 1 ''hello'' ''hello'') exampleWorld) 1)
     = Page_NO_CHANGE \<and>
   getChangeType Fuzzy_isMajorChange ''Count: 5'' ''Count: 5'' (changeThreshold (heap changedWorld 0))
     = NO_CHANGE \<and>
   htmls (exec (doUpdatePageState Fuzzy_isMajorChange 0 ''Count: 5'' ''Count: 5'') changedWorld)
     = htmls changedWorld \<and>
   state (heap (exec (doUpdatePageState Fuzzy_isMajorChange 0 ''Count: 5'' ''Count: 5'') changedWorld) 0)
     = Page_CHANGED"
proof -
  have a: "getChangeType Fuzzy_isMajorChange ''hello'' ''hello''
             (changeThreshold (heap exampleWorld 1)) = NO_CHANGE"
    by (simp add: getChangeType_def)
  have b: "getChangeType Fuzzy_isMajorChange ''Count: 5'' ''Count: 5''
             (changeThreshold (heap changedWorld 0)) = NO_CHANGE"
    by (simp add: getChangeType_def)
  from no_change_no_snapshot_writes [OF a] no_change_no_snapshot_writes [OF b] a b
  show ?thesis by simp
qed

text \<open>
  Claim C9. When the fetch of a page succeeds and its body is read, the change type
  is computed from the NEW snapshot stored for the page and the fetched text, and the
  page is updated accordingly. The OLD snapshot plays no part: whatever it holds, the
  change type found and the resulting page are the same.
\<close>

theorem baseline_is_NEW_snapshot:
  assumes "ok response" and "n = length (waiting w)"
  shows "\<exists>w'. run [FetchSettles n (Fulfilled response),
                   TextSettles n (Fulfilled scannedHtml),
                   LoadSettles n] (exec (scanPage fuzzy r Halt) w) = Some w' \<and>
           trace w' = trace w @
             [FetchStarted r,
              Classified r (getChangeType fuzzy (htmls w (id' (heap w r), NEW)) scannedHtml
                              (changeThreshold (heap w r)))] \<and>
           heap w' r =
             fst (updatePageState fuzzy (heap w r) (htmls w (id' (heap w r), NEW)) scannedHtml) \<and>
           (\<forall>old. \<exists>w''.
              run [FetchSettles n (Fulfilled response),
                   TextSettles n (Fulfilled scannedHtml),
                   LoadSettles n]
                (exec (scanPage fuzzy r Halt)
                   (w\<lparr>htmls := (htmls w)((id' (heap w r), OLD) := old)\<rparr>)) = Some w'' \<and>
              trace w'' = trace w' \<and> heap w'' r = heap w' r)"
  using assms
  by (simp add: scan_defs exec_processHtml exec_doUpdatePageState)

theorem baseline_is_NEW_snapshot_witness:
  "ok (Response True 200 ''OK'') \<and> 0 = length (waiting exampleWorld) \<and>
   htmls exampleWorld (''p1'', NEW) = ''Count: 5'' \<and>
   htmls exampleWorld (''p1'', OLD) = [] \<and>
   (\<exists>w'. run [FetchSettles 0 (Fulfilled (Response True 200 ''OK'')),
              TextSettles 0 (Fulfilled ''Count: 9''),
              LoadSettles 0] (exec (scanPage Fuzzy_isMajorChange 0 Halt) exampleWorld) = Some w' \<and>
      trace w' = [FetchStarted 0, Classified 0 MAJOR_CHANGE])"
proof -
  have a: "0 = length (waiting exampleWorld)" by simp
  have b: "ok (Response True 200 ''OK'')" by simp
  have c: "getChangeType Fuzzy_isMajorChange (htmls exampleWorld (id' (heap exampleWorld 0), NEW))
             ''Count: 9'' (changeThreshold (heap exampleWorld 0)) = MAJOR_CHANGE"
    by (simp add: fuzzy_defs)
  have d: "trace exampleWorld = []" "htmls exampleWorld (''p1'', NEW) = ''Count: 5''"
    "htmls exampleWorld (''p1'', OLD) = []"
    by simp_all
  from baseline_is_NEW_snapshot [OF b a, of "''Count: 9''" Fuzzy_isMajorChange 0]
  obtain w' where
    "run [FetchSettles 0 (Fulfilled (Response True 200 ''OK'')),
          TextSettles 0 (Fulfilled ''Count: 9''),
          LoadSettles 0] (exec (scanPage Fuzzy_isMajorChange 0 Halt) exampleWorld) = Some w'"
    "trace w' = trace exampleWorld @
       [FetchStarted 0,
        Classified 0 (getChangeType Fuzzy_isMajorChange
          (htmls exampleWorld (id' (heap exampleWorld 0), NEW)) ''Count: 9''
          (changeThreshold (heap exampleWorld 0)))]"
    by blast
  with a b c d show ?thesis by simp
qed

section \<open>The orchestrator\<close>

text \<open>
  A fetch that fails, by a rejection or by a response that is not ok: the page gets
  \<open>error = true\<close> and the reason as \<open>errorMessage\<close>, and the chain goes on. Neither
  store is called: the page record in storage is not written.
\<close>

lemma scanPage_fetch_fails:
  assumes "outcome = Rejected err \<or> (outcome = Fulfilled response \<and> \<not> ok response \<and>
           err = JStr (''['' @ showNat (status response) @ ''] '' @ statusText response))"
  shows "settle (FetchSettles (length (waiting w)) outcome) (exec (scanPage fuzzy r k) w) =
           Some (exec k (w\<lparr>trace := trace w @ [FetchStarted r],
                           heap := (heap w)(r := (heap w r)\<lparr>error := JBool True, errorMessage := err\<rparr>)\<rparr>))"
  using assms by (auto simp: scan_defs)

lemma examplePage_error_stored: "getProp (toObject examplePage) ''error'' = JNull"
  by (simp add: toObject_def getProp_def)

text \<open>
  Claim C2, on the code. Pages \<open>p1\<close> and \<open>p2\<close> are scanned; the fetch of \<open>p1\<close> is
  answered 404, the fetch of \<open>p2\<close> succeeds. Afterwards \<open>p1\<close> has \<open>error = true\<close>,
  the message \<open>[404] Not Found\<close>, its state and both its snapshots as before, and
  \<open>p2\<close> is classified on its own texts and saved. But the record of \<open>p1\<close> in storage
  is the one from before the scan, with \<open>error\<close> still \<open>null\<close>: the \<open>catch\<close> callback
  does not call \<open>page.save()\<close>.
\<close>

theorem failed_fetch_not_persisted:
  "\<exists>w'.
     run [FetchSettles 0 (Fulfilled (Response False 404 ''Not Found'')),
          FetchSettles 0 (Fulfilled (Response True 200 ''OK'')),
          TextSettles 0 (Fulfilled ''hello world''),
          LoadSettles 0]
       (exec (scan Fuzzy_isMajorChange [0, 1] (Note ScanFulfilled Halt)) exampleWorld) = Some w' \<and>
     error (heap w' 0) = JBool True \<and>
     errorMessage (heap w' 0) = JStr ''[404] Not Found'' \<and>
     state (heap w' 0) = state examplePage \<and>
     htmls w' (''p1'', NEW) = htmls exampleWorld (''p1'', NEW) \<and>
     htmls w' (''p1'', OLD) = htmls exampleWorld (''p1'', OLD) \<and>
     storage w' (KEY ''p1'') = Some (toObject examplePage) \<and>
     getProp (toObject examplePage) ''error'' = JNull \<and>
     trace w' = [FetchStarted 0, FetchStarted 1, ScanFulfilled, Classified 1 MAJOR_CHANGE] \<and>
     state (heap w' 1) = Page_CHANGED \<and>
     storage w' (KEY ''p2'') = Some (toObject (heap w' 1))"
  by (simp add: scan_defs exec_processHtml exec_doUpdatePageState fuzzy_defs
      updatePageState_def applyChange_def Let_def showNat.simps perform_def
      examplePage_error_stored)

text \<open>
  After the first page's fetch and body read, the only two requests that can settle,
  the second page's fetch has started, while the first page's load is still waiting:
  the page is unchanged and nothing is classified. The classification comes when the
  load settles.
\<close>

lemma scan_second_fetch_first:
  assumes "waiting w = []" and "ok response"
  shows "\<exists>w1 w2 w3.
           length (waiting (exec (scan fuzzy (r1 # r2 # rest) k) w)) = 1 \<and>
           settle (FetchSettles 0 (Fulfilled response))
             (exec (scan fuzzy (r1 # r2 # rest) k) w) = Some w1 \<and>
           length (waiting w1) = 1 \<and>
           settle (TextSettles 0 (Fulfilled scannedHtml)) w1 = Some w2 \<and>
           trace w2 = trace w @ [FetchStarted r1, FetchStarted r2] \<and>
           heap w2 = heap w \<and> htmls w2 = htmls w \<and> storage w2 = storage w \<and>
           length (waiting w2) = 2 \<and>
           settle (LoadSettles 0) w2 = Some w3 \<and>
           trace w3 = trace w2 @
             [Classified r1 (getChangeType fuzzy (htmls w (id' (heap w r1), NEW)) scannedHtml
                               (changeThreshold (heap w r1)))]"
  using assms
  by (simp add: scan_defs exec_processHtml exec_doUpdatePageState)

text \<open>
  Claim C3, on the code. Pages \<open>p1\<close> and \<open>p2\<close> are scanned and both fetches succeed.
  The fetches start in list order, one after the other. But when the fetch of \<open>p2\<close>
  starts, \<open>p1\<close> is not classified yet: its state is as before and its load of the NEW
  snapshot is waiting. The change type of \<open>p1\<close> is found only afterwards.
\<close>

theorem scan_not_serialized:
  "\<exists>w2 w3.
     run [FetchSettles 0 (Fulfilled (Response True 200 ''OK'')),
          TextSettles 0 (Fulfilled ''Count: 9'')]
       (exec (scan Fuzzy_isMajorChange [0, 1] (Note ScanFulfilled Halt)) exampleWorld) = Some w2 \<and>
     trace w2 = [FetchStarted 0, FetchStarted 1] \<and>
     state (heap w2 0) = Page_NO_CHANGE \<and>
     length (waiting w2) = 2 \<and>
     run [LoadSettles 0] w2 = Some w3 \<and>
     trace w3 = [FetchStarted 0, FetchStarted 1, Classified 0 MAJOR_CHANGE] \<and>
     state (heap w3 0) = Page_CHANGED"
  by (simp add: scan_defs exec_processHtml exec_doUpdatePageState fuzzy_defs
      updatePageState_def applyChange_def Let_def)

end
